theory Spec2Isabelle
  imports Complex_Main "HOL-Library.Log_Nat"
begin

section \<open>The FoodDetails screen (src/pages/FoodDetails/index.tsx)\<close>

text \<open>
  The component keeps four pieces of React state (\<open>food\<close>, \<open>extras\<close>, \<open>isFavorite\<close>,
  \<open>foodQuantity\<close>) and changes them through handlers. Each handler is embedded as a
  function on a record of that state; a call to the HTTP client or to the navigation is
  a value the handler returns.

  Conventions of the embedding.
  \<^item> A field of a source interface keeps its name behind the name of the interface
    (\<open>extra.id\<close> is \<open>extra_id\<close>, \<open>food.price\<close> is \<open>food_price\<close>): \<open>id\<close> is a constant of HOL
    and \<open>value\<close> a keyword of Isabelle.
  \<^item> A JavaScript \<open>number\<close> is an IEEE 754 double. The identifiers and the counts, which
    the code only compares and moves by 1, are kept as \<open>int\<close>. A price or a value is kept
    as the \<open>rat\<close> that the server wrote; the arithmetic of \<open>cartTotal\<close> reads it as the
    double nearest to it and rounds every sum and product to the nearest double, ties to
    even, with the signed zeros, the infinities and \<open>NaN\<close>.
  \<^item> The objects held by the \<open>extras\<close> state are the copies that \<open>loadFood\<close> makes with
    an object spread, one fresh object per element, shared neither with \<open>food.extras\<close>
    nor with each other. \<open>Object.assign(extra, {quantity: ...})\<close> on such an object is
    therefore the record update of the element.
\<close>

subsection \<open>JavaScript values\<close>

text \<open>
  \<open>Num r\<close> is the finite number written \<open>r\<close>: the double of value \<open>r\<close> when there is one,
  the double nearest to \<open>r\<close> otherwise (as a numeral is read). \<open>Num 0\<close> is the positive
  zero.
\<close>

datatype number = Num rat | NegZero | PosInfinity | NegInfinity | NaN

definition pow2 :: "int \<Rightarrow> rat" where
  "pow2 e = (if 0 \<le> e then 2 ^ nat e else 1 / 2 ^ nat (- e))"

text \<open>The integer part of the binary logarithm of a positive rational.\<close>

definition floor_log2 :: "rat \<Rightarrow> int" where
  "floor_log2 a =
     (let (p, q) = quotient_of a; k = bitlen p - bitlen q
      in if pow2 k \<le> a then k else k - 1)"

definition round_half_even :: "rat \<Rightarrow> int" where
  "round_half_even x =
     (let f = \<lfloor>x\<rfloor>; d = x - of_int f
      in if d < 1 / 2 then f else if 1 / 2 < d then f + 1 else if even f then f else f + 1)"

text \<open>
  Rounding to binary64, to nearest, ties to even: 53 bits of significand, the least
  exponent of a unit in the last place is -1074 (below it the subnormal numbers), the
  greatest is 971; a result of magnitude \<open>2 ^ 1024\<close> or more is an infinity, a result that
  rounds to nothing is a zero of the sign of \<open>r\<close>.
\<close>

definition double :: "rat \<Rightarrow> number" where
  "double r =
     (if r = 0 then Num 0
      else
        let a = \<bar>r\<bar>;
            e = max (- 1074) (floor_log2 a - 52);
            m = round_half_even (a / pow2 e)
        in if 971 < e \<or> (e = 971 \<and> m = 2 ^ 53)
           then (if r < 0 then NegInfinity else PosInfinity)
           else if m = 0 then (if r < 0 then NegZero else Num 0)
           else Num (sgn r * of_int m * pow2 e))"

fun canon :: "number \<Rightarrow> number" where
  "canon (Num r) = double r"
| "canon n = n"

fun val :: "number \<Rightarrow> rat" where
  "val (Num r) = r"
| "val n = 0"

fun negative :: "number \<Rightarrow> bool" where
  "negative (Num r) = (r < 0)"
| "negative NegZero = True"
| "negative NegInfinity = True"
| "negative n = False"

definition infinite_number :: "number \<Rightarrow> bool" where
  "infinite_number n = (n = PosInfinity \<or> n = NegInfinity)"

text \<open>
  \<open>a + b\<close> on numbers. \<open>NaN\<close> is absorbing; opposite infinities give \<open>NaN\<close>; an exact sum of
  zero is the positive zero unless both operands are the negative zero; any other sum is
  rounded.
\<close>

definition num_add :: "number \<Rightarrow> number \<Rightarrow> number" where
  "num_add x y =
     (let a = canon x; b = canon y
      in if a = NaN \<or> b = NaN then NaN
         else if infinite_number a then (if infinite_number b \<and> a \<noteq> b then NaN else a)
         else if infinite_number b then b
         else if val a + val b = 0
         then (if a = NegZero \<and> b = NegZero then NegZero else Num 0)
         else double (val a + val b))"

text \<open>
  \<open>a * b\<close> on numbers. \<open>NaN\<close> is absorbing; zero times an infinity is \<open>NaN\<close>; the sign of
  an infinite or zero product is the product of the signs; any other product is rounded.
\<close>

definition num_mul :: "number \<Rightarrow> number \<Rightarrow> number" where
  "num_mul x y =
     (let a = canon x; b = canon y
      in if a = NaN \<or> b = NaN then NaN
         else if infinite_number a \<or> infinite_number b
         then (if (val a = 0 \<and> \<not> infinite_number a) \<or> (val b = 0 \<and> \<not> infinite_number b)
               then NaN
               else if negative a = negative b then PosInfinity else NegInfinity)
         else if val a * val b = 0 then (if negative a = negative b then Num 0 else NegZero)
         else double (val a * val b))"

text \<open>
  A property that holds a number or is absent reads as the number or as \<open>undefined\<close>;
  an arithmetic operator converts \<open>undefined\<close> to \<open>NaN\<close>.
\<close>

definition ToNumber :: "rat option \<Rightarrow> number" where
  "ToNumber v = (case v of None \<Rightarrow> NaN | Some r \<Rightarrow> Num r)"

datatype jsvalue =
    JUndefined
  | JNull
  | JBoolean bool
  | JNumber number
  | JString string
  | JArray "jsvalue list"
  | JObject "(string \<times> jsvalue) list"

text \<open>The conversion to boolean that \<open>if (v)\<close> applies.\<close>

fun truthy :: "jsvalue \<Rightarrow> bool" where
  "truthy JUndefined = False"
| "truthy JNull = False"
| "truthy (JBoolean b) = b"
| "truthy (JNumber n) = (canon n \<noteq> NaN \<and> canon n \<noteq> Num 0 \<and> canon n \<noteq> NegZero)"
| "truthy (JString s) = (s \<noteq> [])"
| "truthy (JArray vs) = True"
| "truthy (JObject fs) = True"

subsection \<open>The data of the screen\<close>

record Extra =
  extra_id :: int
  extra_name :: string
  extra_value :: rat
  extra_quantity :: int

text \<open>
  The \<open>food\<close> state starts as \<open>{} as Food\<close>, an object none of whose properties is
  present: every field is optional, \<open>None\<close> for an absent property.
\<close>

record Food =
  food_id :: "int option"
  food_name :: "string option"
  food_description :: "string option"
  food_price :: "rat option"
  food_image_url :: "string option"
  food_formattedPrice :: "string option"
  food_extras :: "Extra list option"

definition empty_Food :: Food where
  "empty_Food = \<lparr>food_id = None, food_name = None, food_description = None,
     food_price = None, food_image_url = None, food_formattedPrice = None,
     food_extras = None\<rparr>"

text \<open>The \<open>data\<close> of a response to \<open>GET /foods/{id}\<close>: a food without \<open>formattedPrice\<close>.\<close>

record FoodData =
  data_id :: int
  data_name :: string
  data_description :: string
  data_price :: rat
  data_image_url :: string
  data_extras :: "Extra list"

record state =
  food :: Food
  extras :: "Extra list"
  isFavorite :: bool
  foodQuantity :: int

text \<open>The four \<open>useState\<close> initial values.\<close>

definition initial_state :: state where
  "initial_state = \<lparr>food = empty_Food, extras = [], isFavorite = False, foodQuantity = 1\<rparr>"

subsection \<open>Requests and effects\<close>

text \<open>
  A URL is the template literal as written: its literal parts and the values
  substituted into it.
\<close>

datatype part = Lit string | Sub jsvalue

datatype body = FoodBody Food | ObjectBody "(string \<times> jsvalue) list"

datatype request =
    ApiGet "part list"
  | ApiDelete "part list"
  | ApiPost "part list" body

datatype effect = Call request | Navigate string

text \<open>How the promise of a request settles.\<close>

datatype 'a outcome = Resolved 'a | Rejected

definition js_of_int :: "int option \<Rightarrow> jsvalue" where
  "js_of_int v = (case v of None \<Rightarrow> JUndefined | Some i \<Rightarrow> JNumber (Num (of_int i)))"

definition js_of_rat :: "rat option \<Rightarrow> jsvalue" where
  "js_of_rat v = (case v of None \<Rightarrow> JUndefined | Some r \<Rightarrow> JNumber (Num r))"

definition js_of_string :: "string option \<Rightarrow> jsvalue" where
  "js_of_string v = (case v of None \<Rightarrow> JUndefined | Some s \<Rightarrow> JString s)"

definition js_of_Extra :: "Extra \<Rightarrow> jsvalue" where
  "js_of_Extra extra = JObject
     [(''id'', JNumber (Num (of_int (extra_id extra)))),
      (''name'', JString (extra_name extra)),
      (''value'', JNumber (Num (extra_value extra))),
      (''quantity'', JNumber (Num (of_int (extra_quantity extra))))]"

subsection \<open>The loaders\<close>

text \<open>
  An \<open>async\<close> function that awaits one request is the request it issues and what it does
  with the state once the request has settled. A rejected \<open>await\<close> throws out of the
  function, which nothing catches: the state stays as it is.

  \<open>formatValue\<close> (\<open>utils/formatValue\<close>) is a parameter: the screen only passes its result
  on.
\<close>

definition loadFood ::
  "(number \<Rightarrow> string) \<Rightarrow> int \<Rightarrow> request \<times> (FoodData outcome \<Rightarrow> state \<Rightarrow> state)" where
  "loadFood formatValue routeParams_id =
     (ApiGet [Lit ''/foods/'', Sub (JNumber (Num (of_int routeParams_id)))],
      \<lambda>response st.
        (case response of
           Rejected \<Rightarrow> st
         | Resolved data \<Rightarrow>
             (let formattedExtra = map (\<lambda>extra. extra\<lparr>extra_quantity := 0\<rparr>) (data_extras data)
              in st\<lparr>food :=
                      \<lparr>food_id = Some (data_id data),
                       food_name = Some (data_name data),
                       food_description = Some (data_description data),
                       food_price = Some (data_price data),
                       food_image_url = Some (data_image_url data),
                       food_formattedPrice = Some (formatValue (Num (data_price data))),
                       food_extras = Some (data_extras data)\<rparr>,
                    extras := formattedExtra\<rparr>)))"

text \<open>
  \<open>favorite\<close> is what \<open>api.get\<close> resolved to: the response itself, not its \<open>data\<close>.
\<close>

definition loadFavorite ::
  "int \<Rightarrow> request \<times> (jsvalue outcome \<Rightarrow> state \<Rightarrow> state)" where
  "loadFavorite routeParams_id =
     (ApiGet [Lit ''/favorites/'', Sub (JNumber (Num (of_int routeParams_id)))],
      \<lambda>response st.
        (case response of
           Rejected \<Rightarrow> st
         | Resolved favorite \<Rightarrow>
             (if truthy favorite then st\<lparr>isFavorite := \<not> isFavorite st\<rparr> else st)))"

subsection \<open>The handlers\<close>

definition handleIncrementExtra :: "int \<Rightarrow> state \<Rightarrow> state" where
  "handleIncrementExtra i st =
     st\<lparr>extras :=
          map (\<lambda>extra.
                 if extra_id extra = i
                 then extra\<lparr>extra_quantity := extra_quantity extra + 1\<rparr>
                 else extra)
              (extras st)\<rparr>"

definition handleDecrementExtra :: "int \<Rightarrow> state \<Rightarrow> state" where
  "handleDecrementExtra i st =
     st\<lparr>extras :=
          map (\<lambda>extra.
                 if extra_id extra = i
                 then extra\<lparr>extra_quantity :=
                        (if extra_quantity extra \<ge> 1 then extra_quantity extra - 1
                         else extra_quantity extra)\<rparr>
                 else extra)
              (extras st)\<rparr>"

definition handleIncrementFood :: "state \<Rightarrow> state" where
  "handleIncrementFood st = st\<lparr>foodQuantity := foodQuantity st + 1\<rparr>"

definition handleDecrementFood :: "state \<Rightarrow> state" where
  "handleDecrementFood st =
     st\<lparr>foodQuantity :=
          (if foodQuantity st > 1 then foodQuantity st - 1 else foodQuantity st)\<rparr>"

text \<open>
  \<open>toggleFavorite\<close> issues its request and drops the promise: the function attached to
  the settling of the request leaves the state alone. The flag is flipped in the same
  call.
\<close>

definition toggleFavorite ::
  "state \<Rightarrow> (request \<times> (jsvalue outcome \<Rightarrow> state \<Rightarrow> state)) \<times> state" where
  "toggleFavorite st =
     (((if isFavorite st
        then ApiDelete [Lit ''favorites/'', Sub (js_of_int (food_id (food st)))]
        else ApiPost [Lit ''favorites''] (FoodBody (food st))),
       \<lambda>response s. s),
      st\<lparr>isFavorite := \<not> isFavorite st\<rparr>)"

definition cartTotal :: "(number \<Rightarrow> string) \<Rightarrow> state \<Rightarrow> string" where
  "cartTotal formatValue st =
     (let totalExtras =
            foldl (\<lambda>accumulator extra.
                     num_add accumulator
                       (num_mul (Num (of_int (extra_quantity extra))) (Num (extra_value extra))))
                  (Num 0) (extras st);
          totalFood = food_price (food st)
      in formatValue
           (num_mul (num_add totalExtras (ToNumber totalFood))
                    (Num (of_int (foodQuantity st)))))"

definition formattedFood :: "state \<Rightarrow> (string \<times> jsvalue) list" where
  "formattedFood st =
     [(''product_id'', js_of_int (food_id (food st))),
      (''name'', js_of_string (food_name (food st))),
      (''description'', js_of_string (food_description (food st))),
      (''price'', js_of_rat (food_price (food st))),
      (''thumbnail_url'', js_of_string (food_image_url (food st))),
      (''extras'', JArray (map js_of_Extra (extras st)))]"

definition handleFinishOrder :: "state \<Rightarrow> effect list" where
  "handleFinishOrder st =
     [Call (ApiPost [Lit ''orders''] (ObjectBody (formattedFood st))),
      Navigate ''DashboardStack'']"

subsection \<open>Sums that no rounding touches\<close>

text \<open>\<open>r\<close> is the value of a double.\<close>

definition is_double :: "rat \<Rightarrow> bool" where
  "is_double r = (double r = Num r)"

text \<open>
  From the partial sum \<open>acc\<close> on, the \<open>reduce\<close> of \<open>cartTotal\<close> meets only doubles: the
  quantity and the value of each extra, their product, and the partial sum with it.
\<close>

fun exact_extras :: "rat \<Rightarrow> Extra list \<Rightarrow> bool" where
  "exact_extras acc [] = True"
| "exact_extras acc (extra # es) =
     (is_double (of_int (extra_quantity extra))
      \<and> is_double (extra_value extra)
      \<and> is_double (of_int (extra_quantity extra) * extra_value extra)
      \<and> is_double (acc + of_int (extra_quantity extra) * extra_value extra)
      \<and> exact_extras (acc + of_int (extra_quantity extra) * extra_value extra) es)"

subsection \<open>Sequences of calls\<close>

datatype event =
    IncrementExtra int
  | DecrementExtra int
  | IncrementFood
  | DecrementFood
  | ToggleFavorite

fun handle :: "event \<Rightarrow> state \<Rightarrow> state" where
  "handle (IncrementExtra i) st = handleIncrementExtra i st"
| "handle (DecrementExtra i) st = handleDecrementExtra i st"
| "handle IncrementFood st = handleIncrementFood st"
| "handle DecrementFood st = handleDecrementFood st"
| "handle ToggleFavorite st = snd (toggleFavorite st)"

definition run :: "event list \<Rightarrow> state \<Rightarrow> state" where
  "run es st = foldl (\<lambda>s e. handle e s) st es"

section \<open>Properties\<close>

subsection \<open>Helper lemmas\<close>

lemma run_Nil: "run [] st = st"
  by (simp add: run_def)

lemma run_Cons: "run (e # es) st = run es (handle e st)"
  by (simp add: run_def)

text \<open>Arithmetic on doubles whose exact result is a double.\<close>

lemma is_double_0: "is_double 0"
  by (simp add: is_double_def double_def)

lemma double_is_double: "is_double r \<Longrightarrow> double r = Num r"
  by (simp add: is_double_def)

lemma num_mul_exact:
  assumes "is_double a" and "is_double b" and "is_double (a * b)"
  shows "num_mul (Num a) (Num b) = Num (a * b)
         \<or> (a * b = 0 \<and> num_mul (Num a) (Num b) = NegZero)"
proof -
  from assms have da: "double a = Num a" and db: "double b = Num b"
    and dab: "double (a * b) = Num (a * b)"
    by (simp_all add: is_double_def)
  show ?thesis
  proof (cases "a * b = 0")
    case True
    have "num_mul (Num a) (Num b) = (if (a < 0) = (b < 0) then Num 0 else NegZero)"
      using True by (simp add: num_mul_def Let_def da db infinite_number_def)
    with True show ?thesis
      by simp
  next
    case False
    then have "num_mul (Num a) (Num b) = double (a * b)"
      by (simp add: num_mul_def Let_def da db infinite_number_def)
    with dab show ?thesis
      by simp
  qed
qed

lemma num_add_exact:
  assumes "is_double a" and "is_double (a + x)"
    and "n = Num x \<and> is_double x \<or> x = 0 \<and> n = NegZero"
  shows "num_add (Num a) n = Num (a + x)"
proof -
  from assms have da: "double a = Num a" and dax: "double (a + x) = Num (a + x)"
    by (simp_all add: is_double_def)
  from assms(3) have cn: "canon n = n" and vn: "val n = x"
    and fin: "n \<noteq> NaN" "n \<noteq> PosInfinity" "n \<noteq> NegInfinity"
    by (auto simp add: is_double_def)
  show ?thesis
  proof (cases "a + x = 0")
    case True
    then have "num_add (Num a) n = Num 0"
      by (simp add: num_add_def Let_def da cn vn fin infinite_number_def)
    with True show ?thesis
      by simp
  next
    case False
    then have "num_add (Num a) n = double (a + x)"
      by (simp add: num_add_def Let_def da cn vn fin infinite_number_def)
    with dax show ?thesis
      by simp
  qed
qed

text \<open>
  The \<open>reduce\<close> of \<open>cartTotal\<close>, started at a double and meeting only doubles, adds the
  sum of the products.
\<close>

lemma totalExtras_foldl:
  "is_double a \<Longrightarrow> exact_extras a xs \<Longrightarrow>
   foldl (\<lambda>accumulator extra.
            num_add accumulator
              (num_mul (Num (of_int (extra_quantity extra))) (Num (extra_value extra))))
         (Num a) xs
     = Num (a + (\<Sum>extra\<leftarrow>xs. of_int (extra_quantity extra) * extra_value extra))
   \<and> is_double (a + (\<Sum>extra\<leftarrow>xs. of_int (extra_quantity extra) * extra_value extra))"
proof (induction xs arbitrary: a)
  case Nil
  then show ?case by simp
next
  case (Cons extra xs)
  let ?x = "of_int (extra_quantity extra) * extra_value extra"
  from Cons.prems(2) have q: "is_double (of_int (extra_quantity extra))"
    and v: "is_double (extra_value extra)" and x: "is_double ?x"
    and s: "is_double (a + ?x)" and rest: "exact_extras (a + ?x) xs"
    by simp_all
  from num_mul_exact [OF q v x]
  have "num_mul (Num (of_int (extra_quantity extra))) (Num (extra_value extra)) = Num ?x
          \<and> is_double ?x
        \<or> ?x = 0 \<and>
          num_mul (Num (of_int (extra_quantity extra))) (Num (extra_value extra)) = NegZero"
    using x by blast
  with Cons.prems(1) s
  have step: "num_add (Num a)
      (num_mul (Num (of_int (extra_quantity extra))) (Num (extra_value extra))) = Num (a + ?x)"
    by (rule num_add_exact)
  from Cons.IH [OF s rest] show ?case
    by (simp add: step add.assoc)
qed

text \<open>What the handlers do to the \<open>extras\<close> state.\<close>

lemma extras_handleIncrementExtra:
  "extras (handleIncrementExtra i st) =
     map (\<lambda>extra. if extra_id extra = i
                  then extra\<lparr>extra_quantity := extra_quantity extra + 1\<rparr> else extra)
         (extras st)"
  by (simp add: handleIncrementExtra_def)

lemma extras_handleDecrementExtra:
  "extras (handleDecrementExtra i st) =
     map (\<lambda>extra. if extra_id extra = i
                  then extra\<lparr>extra_quantity :=
                         (if extra_quantity extra \<ge> 1 then extra_quantity extra - 1
                          else extra_quantity extra)\<rparr>
                  else extra)
         (extras st)"
  by (simp add: handleDecrementExtra_def)

lemma extras_handle_other:
  "extras (handleIncrementFood st) = extras st"
  "extras (handleDecrementFood st) = extras st"
  "extras (snd (toggleFavorite st)) = extras st"
  by (simp_all add: handleIncrementFood_def handleDecrementFood_def toggleFavorite_def)

lemma extras_loadFood:
  "extras (snd (loadFood formatValue i) (Resolved data) st) =
     map (\<lambda>extra. extra\<lparr>extra_quantity := 0\<rparr>) (data_extras data)"
  by (simp add: loadFood_def)

text \<open>Non-negative quantities are kept by every handler, hence by every sequence.\<close>

lemma handle_nonneg:
  assumes "\<forall>extra \<in> set (extras st). 0 \<le> extra_quantity extra"
  shows "\<forall>extra \<in> set (extras (handle ev st)). 0 \<le> extra_quantity extra"
  using assms
  by (cases ev)
    (auto simp: extras_handleIncrementExtra extras_handleDecrementExtra extras_handle_other)

lemma run_nonneg:
  "\<forall>extra \<in> set (extras st). 0 \<le> extra_quantity extra \<Longrightarrow>
   \<forall>extra \<in> set (extras (run es st)). 0 \<le> extra_quantity extra"
proof (induction es arbitrary: st)
  case Nil
  then show ?case by (simp add: run_Nil)
next
  case (Cons ev es)
  from Cons.prems have "\<forall>extra \<in> set (extras (handle ev st)). 0 \<le> extra_quantity extra"
    by (rule handle_nonneg)
  then show ?case unfolding run_Cons by (rule Cons.IH)
qed

text \<open>An order quantity of at least 1 is kept likewise.\<close>

lemma handle_foodQuantity:
  "1 \<le> foodQuantity st \<Longrightarrow> 1 \<le> foodQuantity (handle ev st)"
  by (cases ev)
    (simp_all add: handleIncrementExtra_def handleDecrementExtra_def handleIncrementFood_def
       handleDecrementFood_def toggleFavorite_def)

lemma run_foodQuantity:
  "1 \<le> foodQuantity st \<Longrightarrow> 1 \<le> foodQuantity (run es st)"
  by (induction es arbitrary: st) (simp_all add: run_Nil run_Cons handle_foodQuantity)

subsection \<open>The pricing calculator\<close>

text \<open>
  C1. When the food is loaded, so that \<open>food.price\<close> is a number \<open>p\<close>, and the order
  quantity is at least 1, \<open>cartTotal\<close> is \<open>formatValue\<close> of (the sum over the extras of
  quantity times value, plus \<open>p\<close>) times the order quantity, rounded once to a double,
  provided that no sum or product before the last product is rounded: the quantities,
  the values, \<open>p\<close>, the products, the partial sums and the sum with \<open>p\<close> are doubles.
\<close>

theorem cartTotal_formula:
  assumes "food_price (food st) = Some p"
    and "1 \<le> foodQuantity st"
    and "exact_extras 0 (extras st)"
    and "is_double p"
    and "is_double
           ((\<Sum>extra\<leftarrow>extras st. of_int (extra_quantity extra) * extra_value extra) + p)"
    and "is_double (of_int (foodQuantity st))"
  shows "cartTotal formatValue st =
           formatValue
             (double
                (((\<Sum>extra\<leftarrow>extras st. of_int (extra_quantity extra) * extra_value extra) + p)
                 * of_int (foodQuantity st)))"
proof -
  let ?S = "\<Sum>extra\<leftarrow>extras st. of_int (extra_quantity extra) * extra_value extra"
  let ?q = "of_int (foodQuantity st) :: rat"
  from totalExtras_foldl [OF is_double_0 assms(3)]
  have extras_sum: "foldl (\<lambda>accumulator extra.
            num_add accumulator
              (num_mul (Num (of_int (extra_quantity extra))) (Num (extra_value extra))))
         (Num 0) (extras st) = Num ?S"
    and S: "is_double ?S"
    by simp_all
  have with_price: "num_add (Num ?S) (Num p) = Num (?S + p)"
    using S assms(5) assms(4) by (intro num_add_exact) simp_all
  have q: "0 < ?q"
    using assms(2) by simp
  have "num_mul (Num (?S + p)) (Num ?q) = double ((?S + p) * ?q)"
  proof (cases "?S + p = 0")
    case True
    have zero: "double 0 = Num 0"
      using is_double_0 by (rule double_is_double)
    have quantity: "double ?q = Num ?q"
      using assms(6) by (rule double_is_double)
    show ?thesis
      using q by (simp add: True num_mul_def zero quantity infinite_number_def Let_def)
  next
    case False
    with q have "(?S + p) * ?q \<noteq> 0"
      by simp
    then show ?thesis
      using double_is_double [OF assms(5)] double_is_double [OF assms(6)]
      by (simp add: num_mul_def infinite_number_def Let_def)
  qed
  then show ?thesis
    using assms(1) by (simp add: cartTotal_def Let_def extras_sum ToNumber_def with_price)
qed

text \<open>
  The example of the specification, reached through the code: a food of price 10 with
  one extra of value 2 is loaded, the extra is incremented three times and the food
  once; the total is \<open>formatValue\<close> of 32.
\<close>

theorem cartTotal_formula_witness:
  "\<forall>formatValue.
     cartTotal formatValue
       (run [IncrementExtra 1, IncrementExtra 1, IncrementExtra 1, IncrementFood]
          (snd (loadFood formatValue 5)
             (Resolved
                \<lparr>data_id = 5, data_name = ''Ao molho'', data_description = ''Macarrao'',
                 data_price = 10, data_image_url = ''food.png'',
                 data_extras =
                   [\<lparr>extra_id = 1, extra_name = ''Bacon'', extra_value = 2,
                     extra_quantity = 7\<rparr>]\<rparr>)
             initial_state))
     = formatValue (Num 32)"
proof
  fix formatValue :: "number \<Rightarrow> string"
  let ?st =
    "run [IncrementExtra 1, IncrementExtra 1, IncrementExtra 1, IncrementFood]
       (snd (loadFood formatValue 5)
          (Resolved
             \<lparr>data_id = 5, data_name = ''Ao molho'', data_description = ''Macarrao'',
              data_price = 10, data_image_url = ''food.png'',
              data_extras =
                [\<lparr>extra_id = 1, extra_name = ''Bacon'', extra_value = 2,
                  extra_quantity = 7\<rparr>]\<rparr>)
          initial_state)"
  have p: "food_price (food ?st) = Some 10"
    by (simp add: run_Cons run_Nil loadFood_def initial_state_def
        handleIncrementExtra_def handleIncrementFood_def)
  have x: "extras ?st =
      [\<lparr>extra_id = 1, extra_name = ''Bacon'', extra_value = 2, extra_quantity = 3\<rparr>]"
    by (simp add: run_Cons run_Nil loadFood_def initial_state_def
        handleIncrementExtra_def handleIncrementFood_def)
  have q: "foodQuantity ?st = 2"
    by (simp add: run_Cons run_Nil loadFood_def initial_state_def
        handleIncrementExtra_def handleIncrementFood_def)
  have d2: "is_double 2" and d3: "is_double 3" and d6: "is_double 6"
    and d10: "is_double 10" and d16: "is_double 16"
    by code_simp+
  have d32: "double 32 = Num 32"
    by code_simp
  have one: "1 \<le> foodQuantity ?st"
    by (simp add: q)
  have ex: "exact_extras 0 (extras ?st)"
    by (simp add: x d2 d3 d6)
  have sum: "is_double
      ((\<Sum>extra\<leftarrow>extras ?st. of_int (extra_quantity extra) * extra_value extra) + 10)"
    by (simp add: x d16)
  have dq: "is_double (of_int (foodQuantity ?st))"
    by (simp add: q d2)
  show "cartTotal formatValue ?st = formatValue (Num 32)"
    using cartTotal_formula [OF p one ex d10 sum dq, of formatValue] by (simp add: x q d32)
qed

text \<open>
  Without the proviso the total is not that value. With the price 0.1 and one extra of
  value 0.2 and quantity 1, the code adds the doubles nearest to 0.2 and to 0.1 and gets
  0.30000000000000004, which is not the double nearest to 0.3. With doubles only: the
  extras of values \<open>2 ^ 53\<close> and 1 and the price 1 sum to \<open>2 ^ 53 + 2\<close>, a double, and the
  code gets \<open>2 ^ 53\<close>, each of its two last sums being rounded.
\<close>

theorem cartTotal_formula_counterexample:
  "\<not> (\<forall>formatValue.
        cartTotal formatValue
          \<lparr>food = empty_Food\<lparr>food_price := Some (1 / 10)\<rparr>,
           extras = [\<lparr>extra_id = 1, extra_name = ''Bacon'', extra_value = 2 / 10,
                      extra_quantity = 1\<rparr>],
           isFavorite = False, foodQuantity = 1\<rparr>
        = formatValue (double ((1 * (2 / 10) + 1 / 10) * 1)))
   \<and> \<not> (\<forall>formatValue.
        cartTotal formatValue
          \<lparr>food = empty_Food\<lparr>food_price := Some 1\<rparr>,
           extras = [\<lparr>extra_id = 1, extra_name = ''Bacon'', extra_value = 2 ^ 53,
                      extra_quantity = 1\<rparr>,
                     \<lparr>extra_id = 2, extra_name = ''Frango'', extra_value = 1,
                      extra_quantity = 1\<rparr>],
           isFavorite = False, foodQuantity = 1\<rparr>
        = formatValue (double ((1 * 2 ^ 53 + 1 * 1 + 1) * 1)))"
proof (intro conjI notI)
  let ?f = "\<lambda>n. if n = Num (1351079888211149 / 4503599627370496) then ''0.30000000000000004''
                 else ''another number''"
  assume "\<forall>formatValue.
        cartTotal formatValue
          \<lparr>food = empty_Food\<lparr>food_price := Some (1 / 10)\<rparr>,
           extras = [\<lparr>extra_id = 1, extra_name = ''Bacon'', extra_value = 2 / 10,
                      extra_quantity = 1\<rparr>],
           isFavorite = False, foodQuantity = 1\<rparr>
        = formatValue (double ((1 * (2 / 10) + 1 / 10) * 1))"
  then have "cartTotal ?f
          \<lparr>food = empty_Food\<lparr>food_price := Some (1 / 10)\<rparr>,
           extras = [\<lparr>extra_id = 1, extra_name = ''Bacon'', extra_value = 2 / 10,
                      extra_quantity = 1\<rparr>],
           isFavorite = False, foodQuantity = 1\<rparr>
        = ?f (double ((1 * (2 / 10) + 1 / 10) * 1))"
    by (rule spec)
  moreover have "cartTotal ?f
          \<lparr>food = empty_Food\<lparr>food_price := Some (1 / 10)\<rparr>,
           extras = [\<lparr>extra_id = 1, extra_name = ''Bacon'', extra_value = 2 / 10,
                      extra_quantity = 1\<rparr>],
           isFavorite = False, foodQuantity = 1\<rparr> = ''0.30000000000000004''"
    by code_simp
  moreover have "?f (double ((1 * (2 / 10) + 1 / 10) * 1)) = ''another number''"
    by code_simp
  ultimately show False
    by simp
next
  let ?g = "\<lambda>n. if n = Num 9007199254740992 then ''9007199254740992''
                 else ''another number''"
  assume "\<forall>formatValue.
        cartTotal formatValue
          \<lparr>food = empty_Food\<lparr>food_price := Some 1\<rparr>,
           extras = [\<lparr>extra_id = 1, extra_name = ''Bacon'', extra_value = 2 ^ 53,
                      extra_quantity = 1\<rparr>,
                     \<lparr>extra_id = 2, extra_name = ''Frango'', extra_value = 1,
                      extra_quantity = 1\<rparr>],
           isFavorite = False, foodQuantity = 1\<rparr>
        = formatValue (double ((1 * 2 ^ 53 + 1 * 1 + 1) * 1))"
  then have "cartTotal ?g
          \<lparr>food = empty_Food\<lparr>food_price := Some 1\<rparr>,
           extras = [\<lparr>extra_id = 1, extra_name = ''Bacon'', extra_value = 2 ^ 53,
                      extra_quantity = 1\<rparr>,
                     \<lparr>extra_id = 2, extra_name = ''Frango'', extra_value = 1,
                      extra_quantity = 1\<rparr>],
           isFavorite = False, foodQuantity = 1\<rparr>
        = ?g (double ((1 * 2 ^ 53 + 1 * 1 + 1) * 1))"
    by (rule spec)
  moreover have "cartTotal ?g
          \<lparr>food = empty_Food\<lparr>food_price := Some 1\<rparr>,
           extras = [\<lparr>extra_id = 1, extra_name = ''Bacon'', extra_value = 2 ^ 53,
                      extra_quantity = 1\<rparr>,
                     \<lparr>extra_id = 2, extra_name = ''Frango'', extra_value = 1,
                      extra_quantity = 1\<rparr>],
           isFavorite = False, foodQuantity = 1\<rparr> = ''9007199254740992''"
    by code_simp
  moreover have "?g (double ((1 * 2 ^ 53 + 1 * 1 + 1) * 1)) = ''another number''"
    by code_simp
  ultimately show False
    by simp
qed

text \<open>
  C10. Before the food has loaded, \<open>food.price\<close> is absent and \<open>cartTotal\<close> is
  \<open>formatValue\<close> of \<open>NaN\<close>, whatever the extras and the order quantity are: the formula
  of the pricing calculator needs the food to be loaded.
\<close>

theorem cartTotal_before_load:
  assumes "food_price (food st) = None"
  shows "cartTotal formatValue st = formatValue NaN"
proof -
  have "num_add t (ToNumber (food_price (food st))) = NaN" for t
    using assms by (simp add: ToNumber_def num_add_def Let_def)
  moreover have "num_mul NaN n = NaN" for n
    by (simp add: num_mul_def Let_def)
  ultimately show ?thesis
    by (simp add: cartTotal_def Let_def)
qed

text \<open>The state at screen entry is such a state.\<close>

theorem cartTotal_before_load_witness:
  "food_price (food initial_state) = None
   \<and> (\<forall>formatValue. cartTotal formatValue initial_state = formatValue NaN)"
proof -
  have h: "food_price (food initial_state) = None"
    by (simp add: initial_state_def empty_Food_def)
  show ?thesis using h cartTotal_before_load [OF h] by simp
qed

subsection \<open>The quantities of the extras\<close>

text \<open>
  C2. \<open>loadFood\<close> stores every extra with quantity 0; from that state, after every
  sequence of handler calls (\<open>handleIncrementExtra\<close> and \<open>handleDecrementExtra\<close> with any
  ids among them), the quantity of every extra is at least 0. In any state, a call of
  \<open>handleDecrementExtra\<close> leaves at 0 the quantity of an extra whose quantity is 0.
\<close>

theorem extra_quantity_never_negative:
  "(\<forall>extra \<in> set (extras (snd (loadFood formatValue i) (Resolved data) st)).
      extra_quantity extra = 0)
   \<and> (\<forall>extra \<in> set (extras (run es (snd (loadFood formatValue i) (Resolved data) st))).
        0 \<le> extra_quantity extra)
   \<and> (\<forall>k < length (extras st').
        extra_quantity (extras st' ! k) = 0 \<longrightarrow>
        extra_quantity (extras (handleDecrementExtra j st') ! k) = 0)"
proof (intro conjI)
  show "\<forall>extra \<in> set (extras (snd (loadFood formatValue i) (Resolved data) st)).
      extra_quantity extra = 0"
    by (simp add: extras_loadFood)
  then have "\<forall>extra \<in> set (extras (snd (loadFood formatValue i) (Resolved data) st)).
      0 \<le> extra_quantity extra"
    by simp
  then show "\<forall>extra \<in> set (extras (run es (snd (loadFood formatValue i) (Resolved data) st))).
        0 \<le> extra_quantity extra"
    by (rule run_nonneg)
  show "\<forall>k < length (extras st').
        extra_quantity (extras st' ! k) = 0 \<longrightarrow>
        extra_quantity (extras (handleDecrementExtra j st') ! k) = 0"
    by (simp add: extras_handleDecrementExtra)
qed

text \<open>
  Two extras are loaded (the quantities the server sent are overwritten with 0); five
  calls later the quantities are 1 and 0, and a single decrement after the load leaves
  both at 0.
\<close>

theorem extra_quantity_never_negative_witness:
  "\<forall>formatValue.
     map extra_quantity
       (extras
          (run [DecrementExtra 1, IncrementExtra 2, DecrementExtra 2, DecrementExtra 2,
                IncrementExtra 1]
             (snd (loadFood formatValue 5)
                (Resolved
                   \<lparr>data_id = 5, data_name = ''Ao molho'', data_description = ''Macarrao'',
                    data_price = 10, data_image_url = ''food.png'',
                    data_extras =
                      [\<lparr>extra_id = 1, extra_name = ''Bacon'', extra_value = 2,
                        extra_quantity = 7\<rparr>,
                       \<lparr>extra_id = 2, extra_name = ''Frango'', extra_value = 3,
                        extra_quantity = - 4\<rparr>]\<rparr>)
                initial_state))) = [1, 0]
     \<and> map extra_quantity
         (extras
            (handleDecrementExtra 1
               (snd (loadFood formatValue 5)
                  (Resolved
                     \<lparr>data_id = 5, data_name = ''Ao molho'', data_description = ''Macarrao'',
                      data_price = 10, data_image_url = ''food.png'',
                      data_extras =
                        [\<lparr>extra_id = 1, extra_name = ''Bacon'', extra_value = 2,
                          extra_quantity = 7\<rparr>,
                         \<lparr>extra_id = 2, extra_name = ''Frango'', extra_value = 3,
                          extra_quantity = - 4\<rparr>]\<rparr>)
                  initial_state))) = [0, 0]"
proof
  fix formatValue :: "number \<Rightarrow> string"
  let ?data =
    "\<lparr>data_id = 5, data_name = ''Ao molho'', data_description = ''Macarrao'',
      data_price = 10, data_image_url = ''food.png'',
      data_extras =
        [\<lparr>extra_id = 1, extra_name = ''Bacon'', extra_value = 2, extra_quantity = 7\<rparr>,
         \<lparr>extra_id = 2, extra_name = ''Frango'', extra_value = 3, extra_quantity = - 4\<rparr>]\<rparr>"
  let ?loaded = "snd (loadFood formatValue 5) (Resolved ?data) initial_state"
  let ?es = "[DecrementExtra 1, IncrementExtra 2, DecrementExtra 2, DecrementExtra 2,
              IncrementExtra 1]"
  note inst = extra_quantity_never_negative [of formatValue 5 ?data initial_state ?es ?loaded 1]
  have loaded: "extras ?loaded =
      [\<lparr>extra_id = 1, extra_name = ''Bacon'', extra_value = 2, extra_quantity = 0\<rparr>,
       \<lparr>extra_id = 2, extra_name = ''Frango'', extra_value = 3, extra_quantity = 0\<rparr>]"
    by (simp add: extras_loadFood)
  have after: "map extra_quantity (extras (run ?es ?loaded)) = [1, 0]"
    by (simp add: run_Cons run_Nil extras_handleIncrementExtra extras_handleDecrementExtra
        loaded)
  have "extra_quantity (extras (handleDecrementExtra 1 ?loaded) ! 0) = 0"
    using inst by (simp add: loaded)
  then have "map extra_quantity (extras (handleDecrementExtra 1 ?loaded)) = [0, 0]"
    by (simp add: extras_handleDecrementExtra loaded)
  with after
  show "map extra_quantity (extras (run ?es ?loaded)) = [1, 0]
      \<and> map extra_quantity (extras (handleDecrementExtra 1 ?loaded)) = [0, 0]"
    by simp
qed

text \<open>
  C7. \<open>handleIncrementExtra i\<close> keeps the length of the list and adds 1 to the quantity
  of every extra whose id is \<open>i\<close>; when no extra has the id \<open>i\<close>, the state is unchanged.
\<close>

theorem handleIncrementExtra_matching:
  "length (extras (handleIncrementExtra i st)) = length (extras st)
   \<and> (\<forall>k < length (extras st).
        extra_id (extras st ! k) = i \<longrightarrow>
        extra_quantity (extras (handleIncrementExtra i st) ! k) =
          extra_quantity (extras st ! k) + 1)
   \<and> (i \<notin> extra_id ` set (extras st) \<longrightarrow> handleIncrementExtra i st = st)"
proof (intro conjI impI)
  show "length (extras (handleIncrementExtra i st)) = length (extras st)"
    by (simp add: extras_handleIncrementExtra)
  show "\<forall>k < length (extras st).
        extra_id (extras st ! k) = i \<longrightarrow>
        extra_quantity (extras (handleIncrementExtra i st) ! k) =
          extra_quantity (extras st ! k) + 1"
    by (simp add: extras_handleIncrementExtra)
  assume "i \<notin> extra_id ` set (extras st)"
  then have "map (\<lambda>extra. if extra_id extra = i
                  then extra\<lparr>extra_quantity := extra_quantity extra + 1\<rparr> else extra)
         (extras st) = extras st"
    by (intro map_idI) auto
  then show "handleIncrementExtra i st = st"
    by (simp add: handleIncrementExtra_def)
qed

text \<open>
  With the extras 1 (quantity 0) and 2 (quantity 4): incrementing 2 gives the quantities
  0 and 5, incrementing the absent id 3 gives the same state.
\<close>

theorem handleIncrementExtra_matching_witness:
  "map extra_quantity
     (extras (handleIncrementExtra 2
        \<lparr>food = empty_Food,
         extras = [\<lparr>extra_id = 1, extra_name = ''Bacon'', extra_value = 2, extra_quantity = 0\<rparr>,
                   \<lparr>extra_id = 2, extra_name = ''Frango'', extra_value = 3, extra_quantity = 4\<rparr>],
         isFavorite = False, foodQuantity = 1\<rparr>)) = [0, 5]
   \<and> handleIncrementExtra 3
        \<lparr>food = empty_Food,
         extras = [\<lparr>extra_id = 1, extra_name = ''Bacon'', extra_value = 2, extra_quantity = 0\<rparr>,
                   \<lparr>extra_id = 2, extra_name = ''Frango'', extra_value = 3, extra_quantity = 4\<rparr>],
         isFavorite = False, foodQuantity = 1\<rparr>
      = \<lparr>food = empty_Food,
         extras = [\<lparr>extra_id = 1, extra_name = ''Bacon'', extra_value = 2, extra_quantity = 0\<rparr>,
                   \<lparr>extra_id = 2, extra_name = ''Frango'', extra_value = 3, extra_quantity = 4\<rparr>],
         isFavorite = False, foodQuantity = 1\<rparr>"
proof -
  let ?st = "\<lparr>food = empty_Food,
         extras = [\<lparr>extra_id = 1, extra_name = ''Bacon'', extra_value = 2, extra_quantity = 0\<rparr>,
                   \<lparr>extra_id = 2, extra_name = ''Frango'', extra_value = 3, extra_quantity = 4\<rparr>],
         isFavorite = False, foodQuantity = 1\<rparr>"
  have absent: "3 \<notin> extra_id ` set (extras ?st)"
    by simp
  have noop: "handleIncrementExtra 3 ?st = ?st"
    using handleIncrementExtra_matching [of 3 ?st] absent by blast
  have "extra_quantity (extras (handleIncrementExtra 2 ?st) ! 1) =
      extra_quantity (extras ?st ! 1) + 1"
    using handleIncrementExtra_matching [of 2 ?st] by simp
  moreover have "extra_quantity (extras (handleIncrementExtra 2 ?st) ! 0) = 0"
    by (simp add: handleIncrementExtra_def)
  moreover have "length (extras (handleIncrementExtra 2 ?st)) = 2"
    using handleIncrementExtra_matching [of 2 ?st] by simp
  ultimately have "map extra_quantity (extras (handleIncrementExtra 2 ?st)) = [0, 5]"
    by (simp add: handleIncrementExtra_def)
  with noop show ?thesis by simp
qed

text \<open>
  C8. Each of \<open>handleIncrementExtra i\<close> and \<open>handleDecrementExtra i\<close> keeps the length
  of the extras list and the id, name and value of every extra, leaves every extra whose
  id is not \<open>i\<close> as it was, and leaves the food, the favorite flag and the order quantity
  unchanged.
\<close>

theorem extra_handlers_frame:
  "\<forall>h \<in> {handleIncrementExtra i, handleDecrementExtra i}.
     length (extras (h st)) = length (extras st)
     \<and> map extra_id (extras (h st)) = map extra_id (extras st)
     \<and> map extra_name (extras (h st)) = map extra_name (extras st)
     \<and> map extra_value (extras (h st)) = map extra_value (extras st)
     \<and> (\<forall>k < length (extras st).
          extra_id (extras st ! k) \<noteq> i \<longrightarrow> extras (h st) ! k = extras st ! k)
     \<and> food (h st) = food st
     \<and> isFavorite (h st) = isFavorite st
     \<and> foodQuantity (h st) = foodQuantity st"
proof -
  have inc: "length (extras (handleIncrementExtra i st)) = length (extras st)
     \<and> map extra_id (extras (handleIncrementExtra i st)) = map extra_id (extras st)
     \<and> map extra_name (extras (handleIncrementExtra i st)) = map extra_name (extras st)
     \<and> map extra_value (extras (handleIncrementExtra i st)) = map extra_value (extras st)
     \<and> (\<forall>k < length (extras st).
          extra_id (extras st ! k) \<noteq> i \<longrightarrow>
          extras (handleIncrementExtra i st) ! k = extras st ! k)
     \<and> food (handleIncrementExtra i st) = food st
     \<and> isFavorite (handleIncrementExtra i st) = isFavorite st
     \<and> foodQuantity (handleIncrementExtra i st) = foodQuantity st"
    by (simp add: handleIncrementExtra_def)
  have dec: "length (extras (handleDecrementExtra i st)) = length (extras st)
     \<and> map extra_id (extras (handleDecrementExtra i st)) = map extra_id (extras st)
     \<and> map extra_name (extras (handleDecrementExtra i st)) = map extra_name (extras st)
     \<and> map extra_value (extras (handleDecrementExtra i st)) = map extra_value (extras st)
     \<and> (\<forall>k < length (extras st).
          extra_id (extras st ! k) \<noteq> i \<longrightarrow>
          extras (handleDecrementExtra i st) ! k = extras st ! k)
     \<and> food (handleDecrementExtra i st) = food st
     \<and> isFavorite (handleDecrementExtra i st) = isFavorite st
     \<and> foodQuantity (handleDecrementExtra i st) = foodQuantity st"
    by (simp add: handleDecrementExtra_def)
  from inc dec show ?thesis by blast
qed

text \<open>
  With the extras 1 (quantity 1) and 2 (quantity 4), decrementing 1 changes the first
  quantity only, and incrementing 1 likewise.
\<close>

theorem extra_handlers_frame_witness:
  "extras (handleDecrementExtra 1
      \<lparr>food = empty_Food,
       extras = [\<lparr>extra_id = 1, extra_name = ''Bacon'', extra_value = 2, extra_quantity = 1\<rparr>,
                 \<lparr>extra_id = 2, extra_name = ''Frango'', extra_value = 3, extra_quantity = 4\<rparr>],
       isFavorite = True, foodQuantity = 3\<rparr>)
     = [\<lparr>extra_id = 1, extra_name = ''Bacon'', extra_value = 2, extra_quantity = 0\<rparr>,
        \<lparr>extra_id = 2, extra_name = ''Frango'', extra_value = 3, extra_quantity = 4\<rparr>]
   \<and> extras (handleIncrementExtra 1
      \<lparr>food = empty_Food,
       extras = [\<lparr>extra_id = 1, extra_name = ''Bacon'', extra_value = 2, extra_quantity = 1\<rparr>,
                 \<lparr>extra_id = 2, extra_name = ''Frango'', extra_value = 3, extra_quantity = 4\<rparr>],
       isFavorite = True, foodQuantity = 3\<rparr>)
     = [\<lparr>extra_id = 1, extra_name = ''Bacon'', extra_value = 2, extra_quantity = 2\<rparr>,
        \<lparr>extra_id = 2, extra_name = ''Frango'', extra_value = 3, extra_quantity = 4\<rparr>]
   \<and> foodQuantity (handleDecrementExtra 1
      \<lparr>food = empty_Food,
       extras = [\<lparr>extra_id = 1, extra_name = ''Bacon'', extra_value = 2, extra_quantity = 1\<rparr>,
                 \<lparr>extra_id = 2, extra_name = ''Frango'', extra_value = 3, extra_quantity = 4\<rparr>],
       isFavorite = True, foodQuantity = 3\<rparr>) = 3
   \<and> isFavorite (handleDecrementExtra 1
      \<lparr>food = empty_Food,
       extras = [\<lparr>extra_id = 1, extra_name = ''Bacon'', extra_value = 2, extra_quantity = 1\<rparr>,
                 \<lparr>extra_id = 2, extra_name = ''Frango'', extra_value = 3, extra_quantity = 4\<rparr>],
       isFavorite = True, foodQuantity = 3\<rparr>)
   \<and> food (handleDecrementExtra 1
      \<lparr>food = empty_Food,
       extras = [\<lparr>extra_id = 1, extra_name = ''Bacon'', extra_value = 2, extra_quantity = 1\<rparr>,
                 \<lparr>extra_id = 2, extra_name = ''Frango'', extra_value = 3, extra_quantity = 4\<rparr>],
       isFavorite = True, foodQuantity = 3\<rparr>) = empty_Food"
proof -
  let ?st = "\<lparr>food = empty_Food,
       extras = [\<lparr>extra_id = 1, extra_name = ''Bacon'', extra_value = 2, extra_quantity = 1\<rparr>,
                 \<lparr>extra_id = 2, extra_name = ''Frango'', extra_value = 3, extra_quantity = 4\<rparr>],
       isFavorite = True, foodQuantity = 3\<rparr>"
  note inst = extra_handlers_frame [of 1 ?st]
  have dec: "foodQuantity (handleDecrementExtra 1 ?st) = 3
      \<and> isFavorite (handleDecrementExtra 1 ?st)
      \<and> food (handleDecrementExtra 1 ?st) = empty_Food"
    using inst by simp
  have second: "extras (handleDecrementExtra 1 ?st) ! 1 =
      \<lparr>extra_id = 2, extra_name = ''Frango'', extra_value = 3, extra_quantity = 4\<rparr>"
    using inst by simp
  have "extras (handleDecrementExtra 1 ?st)
     = [\<lparr>extra_id = 1, extra_name = ''Bacon'', extra_value = 2, extra_quantity = 0\<rparr>,
        \<lparr>extra_id = 2, extra_name = ''Frango'', extra_value = 3, extra_quantity = 4\<rparr>]"
    by (simp add: extras_handleDecrementExtra)
  moreover have "extras (handleIncrementExtra 1 ?st)
     = [\<lparr>extra_id = 1, extra_name = ''Bacon'', extra_value = 2, extra_quantity = 2\<rparr>,
        \<lparr>extra_id = 2, extra_name = ''Frango'', extra_value = 3, extra_quantity = 4\<rparr>]"
    by (simp add: extras_handleIncrementExtra)
  ultimately show ?thesis using dec second by simp
qed

text \<open>
  C9. On an extras list whose quantities are all at least 0 (as they are in every state
  the screen reaches from a load), \<open>handleIncrementExtra i\<close> followed by
  \<open>handleDecrementExtra i\<close> gives the state back, for every id \<open>i\<close>, present or not.
\<close>

theorem increment_then_decrement_roundtrip:
  assumes "\<forall>extra \<in> set (extras st). 0 \<le> extra_quantity extra"
  shows "handleDecrementExtra i (handleIncrementExtra i st) = st"
proof -
  have "map (\<lambda>extra. if extra_id extra = i
                  then extra\<lparr>extra_quantity :=
                         (if extra_quantity extra \<ge> 1 then extra_quantity extra - 1
                          else extra_quantity extra)\<rparr>
                  else extra)
          (map (\<lambda>extra. if extra_id extra = i
                  then extra\<lparr>extra_quantity := extra_quantity extra + 1\<rparr> else extra)
             (extras st))
        = extras st"
    unfolding map_map using assms by (intro map_idI) auto
  then show ?thesis
    by (simp add: handleDecrementExtra_def handleIncrementExtra_def)
qed

text \<open>
  With the extra 1 at quantity 0: increment then decrement gives the state back; decrement
  then increment does not, it leaves the quantity at 1.
\<close>

theorem increment_then_decrement_roundtrip_witness:
  "list_all (\<lambda>extra. 0 \<le> extra_quantity extra)
     (extras
        \<lparr>food = empty_Food,
         extras = [\<lparr>extra_id = 1, extra_name = ''Bacon'', extra_value = 2, extra_quantity = 0\<rparr>,
                   \<lparr>extra_id = 2, extra_name = ''Frango'', extra_value = 3, extra_quantity = 4\<rparr>],
         isFavorite = False, foodQuantity = 1\<rparr>)
   \<and> handleDecrementExtra 1 (handleIncrementExtra 1
        \<lparr>food = empty_Food,
         extras = [\<lparr>extra_id = 1, extra_name = ''Bacon'', extra_value = 2, extra_quantity = 0\<rparr>,
                   \<lparr>extra_id = 2, extra_name = ''Frango'', extra_value = 3, extra_quantity = 4\<rparr>],
         isFavorite = False, foodQuantity = 1\<rparr>)
      = \<lparr>food = empty_Food,
         extras = [\<lparr>extra_id = 1, extra_name = ''Bacon'', extra_value = 2, extra_quantity = 0\<rparr>,
                   \<lparr>extra_id = 2, extra_name = ''Frango'', extra_value = 3, extra_quantity = 4\<rparr>],
         isFavorite = False, foodQuantity = 1\<rparr>
   \<and> map extra_quantity (extras (handleIncrementExtra 1 (handleDecrementExtra 1
        \<lparr>food = empty_Food,
         extras = [\<lparr>extra_id = 1, extra_name = ''Bacon'', extra_value = 2, extra_quantity = 0\<rparr>,
                   \<lparr>extra_id = 2, extra_name = ''Frango'', extra_value = 3, extra_quantity = 4\<rparr>],
         isFavorite = False, foodQuantity = 1\<rparr>))) = [1, 4]"
proof -
  let ?st = "\<lparr>food = empty_Food,
         extras = [\<lparr>extra_id = 1, extra_name = ''Bacon'', extra_value = 2, extra_quantity = 0\<rparr>,
                   \<lparr>extra_id = 2, extra_name = ''Frango'', extra_value = 3, extra_quantity = 4\<rparr>],
         isFavorite = False, foodQuantity = 1\<rparr>"
  have h: "\<forall>extra \<in> set (extras ?st). 0 \<le> extra_quantity extra"
    by simp
  have restored: "handleDecrementExtra 1 (handleIncrementExtra 1 ?st) = ?st"
    using increment_then_decrement_roundtrip [OF h, of 1] .
  have "map extra_quantity (extras (handleIncrementExtra 1 (handleDecrementExtra 1 ?st))) = [1, 4]"
    by (simp add: extras_handleIncrementExtra extras_handleDecrementExtra)
  with restored show ?thesis by simp
qed

subsection \<open>The order quantity\<close>

text \<open>
  C3. From a state whose order quantity is 1, as it is at screen entry, the order
  quantity is at least 1 after every sequence of handler calls (\<open>handleIncrementFood\<close> and
  \<open>handleDecrementFood\<close> among them), and \<open>handleDecrementFood\<close> leaves it at 1.
\<close>

theorem foodQuantity_never_below_one:
  assumes "foodQuantity st = 1"
  shows "1 \<le> foodQuantity (run es st) \<and> foodQuantity (handleDecrementFood st) = 1"
  using assms run_foodQuantity [of st es] by (simp add: handleDecrementFood_def)

theorem foodQuantity_never_below_one_witness:
  "foodQuantity initial_state = 1
   \<and> foodQuantity
       (run [DecrementFood, IncrementFood, DecrementFood, DecrementFood] initial_state) = 1
   \<and> foodQuantity (run [IncrementFood, IncrementFood, DecrementFood] initial_state) = 2
   \<and> foodQuantity (handleDecrementFood initial_state) = 1"
proof -
  have h: "foodQuantity initial_state = 1"
    by (simp add: initial_state_def)
  have "foodQuantity (handleDecrementFood initial_state) = 1"
    using foodQuantity_never_below_one [OF h] by simp
  then show ?thesis
    using h
    by (simp add: run_Cons run_Nil handleIncrementFood_def handleDecrementFood_def)
qed

subsection \<open>The favorite flag\<close>

text \<open>
  C4. One call of \<open>toggleFavorite\<close> negates \<open>isFavorite\<close> and changes nothing else; the
  request it issues is a delete of \<open>favorites/${food.id}\<close> when the flag was true and a
  post of the \<open>food\<close> object to \<open>favorites\<close> otherwise; however the request settles, the
  state stays as the call left it.
\<close>

theorem toggleFavorite_flips_once:
  "fst (fst (toggleFavorite st)) =
     (if isFavorite st
      then ApiDelete [Lit ''favorites/'', Sub (js_of_int (food_id (food st)))]
      else ApiPost [Lit ''favorites''] (FoodBody (food st)))
   \<and> isFavorite (snd (toggleFavorite st)) = (\<not> isFavorite st)
   \<and> snd (fst (toggleFavorite st)) response (snd (toggleFavorite st)) = snd (toggleFavorite st)
   \<and> food (snd (toggleFavorite st)) = food st
   \<and> extras (snd (toggleFavorite st)) = extras st
   \<and> foodQuantity (snd (toggleFavorite st)) = foodQuantity st"
  by (simp add: toggleFavorite_def)

text \<open>
  C6. The specification has \<open>isFavorite\<close> true, once the fetch of \<open>loadFavorite\<close> has
  succeeded, exactly when a favorite record exists for the id. The code does not
  establish it. It tests the response object, which is truthy whatever its \<open>data\<close>
  (\<open>loadFood\<close> takes the \<open>data\<close> out of such a response, \<open>loadFavorite\<close> does not), and it
  negates the flag instead of setting it. So, from the state at screen entry, a response
  with no record (\<open>data\<close> is \<open>null\<close>) makes the flag true; and a response with the record
  makes the flag false when \<open>toggleFavorite\<close> has run before the response arrived.
\<close>

theorem loadFavorite_flag_without_record:
  "isFavorite
     (snd (loadFavorite 5)
        (Resolved (JObject [(''status'', JNumber (Num 200)), (''data'', JNull)]))
        initial_state) = True
   \<and> isFavorite
       (snd (loadFavorite 5)
          (Resolved (JObject [(''status'', JNumber (Num 200)),
                              (''data'', JObject [(''id'', JNumber (Num 5))])]))
          (snd (toggleFavorite initial_state))) = False"
  by (simp add: loadFavorite_def initial_state_def toggleFavorite_def)

subsection \<open>The order\<close>

text \<open>
  C5. \<open>handleFinishOrder\<close> posts to \<open>orders\<close> an object whose keys are \<open>product_id\<close>,
  \<open>name\<close>, \<open>description\<close>, \<open>price\<close>, \<open>thumbnail_url\<close> and \<open>extras\<close>, no other; their
  values are \<open>food.id\<close>, \<open>food.name\<close>, \<open>food.description\<close>, \<open>food.price\<close>, \<open>food.image_url\<close>
  and the \<open>extras\<close> state at the call. It then navigates to \<open>DashboardStack\<close>.
\<close>

theorem handleFinishOrder_payload:
  "handleFinishOrder st =
     [Call (ApiPost [Lit ''orders''] (ObjectBody (formattedFood st))),
      Navigate ''DashboardStack'']
   \<and> map fst (formattedFood st) =
       [''product_id'', ''name'', ''description'', ''price'', ''thumbnail_url'', ''extras'']
   \<and> map_of (formattedFood st) ''product_id'' = Some (js_of_int (food_id (food st)))
   \<and> map_of (formattedFood st) ''name'' = Some (js_of_string (food_name (food st)))
   \<and> map_of (formattedFood st) ''description'' = Some (js_of_string (food_description (food st)))
   \<and> map_of (formattedFood st) ''price'' = Some (js_of_rat (food_price (food st)))
   \<and> map_of (formattedFood st) ''thumbnail_url'' = Some (js_of_string (food_image_url (food st)))
   \<and> map_of (formattedFood st) ''extras'' = Some (JArray (map js_of_Extra (extras st)))"
  by (simp add: handleFinishOrder_def formattedFood_def)

end
